theory Spec2Isabelle
  imports Complex_Main "HOL-Library.Char_ord" "HOL-Library.List_Lexorder"
begin

section \<open>Values and the host\<close>

text \<open>
  The library (\<^verbatim>\<open>ts/src/struct.ts\<close>) works on JSON-like values of the host language.
  A value is the undefined value (\<open>Undef\<close>, the source's \<^verbatim>\<open>UNDEF\<close>, "absent"), null, a
  boolean, a number, a string, a list, a map or a function. Numbers are the integral
  ones. A map is the list of its own properties in the order \<^verbatim>\<open>Object.keys\<close>
  enumerates them. A function is known by an identifier only. Values are compared by
  structure, so two names for one node are not told apart from two equal nodes.
\<close>

datatype val =
    Undef
  | Null
  | Bool bool
  | Num int
  | Str string
  | List "val list"
  | Map "(string \<times> val) list"
  | Func nat

text \<open>
  The result of the numeric coercion \<^verbatim>\<open>+key\<close>: not-a-number, an infinity, or a finite
  number, which after coercing a string need not be integral.
\<close>

datatype jsnum = NaN | NegInf | PosInf | Fin rat

text \<open>
  What the source takes from the host language and does not define itself is a
  parameter of the model:
  \<^item> \<open>tonum\<close>, the coercion of a string to a number (\<^verbatim>\<open>+key\<close>);
  \<^item> \<open>exp_string\<close>, the text of a number of magnitude \<open>10^21\<close> or more, which the host
    writes with an exponent;
  \<^item> \<open>func_string\<close>, the text of a function;
  \<^item> \<open>obj_inherited\<close>, the property that a map inherits under a name (\<^verbatim>\<open>toString\<close>,
    \<^verbatim>\<open>constructor\<close>, \<^verbatim>\<open>__proto__\<close> and so on), \<open>Undef\<close> when it inherits none;
  \<^item> \<open>arr_inherited\<close>, the same for a list (its \<^verbatim>\<open>length\<close> and elements apart);
  \<^item> \<open>prim_member\<close>, the property of a value that is not a node (a string, a number, a
    boolean, a function) under a name.
  Every theorem below that speaks of a host \<open>h\<close> holds for every host.
\<close>

record host =
  tonum :: "string \<Rightarrow> jsnum"
  exp_string :: "int \<Rightarrow> string"
  func_string :: "nat \<Rightarrow> string"
  obj_inherited :: "string \<Rightarrow> val"
  arr_inherited :: "string \<Rightarrow> val"
  prim_member :: "val \<Rightarrow> string \<Rightarrow> val"

fun js_less :: "jsnum \<Rightarrow> jsnum \<Rightarrow> bool" where
  "js_less NaN _ = False"
| "js_less _ NaN = False"
| "js_less (Fin a) (Fin b) = (a < b)"
| "js_less NegInf NegInf = False"
| "js_less NegInf _ = True"
| "js_less _ NegInf = False"
| "js_less PosInf _ = False"
| "js_less _ PosInf = True"

fun js_le :: "jsnum \<Rightarrow> jsnum \<Rightarrow> bool" where
  "js_le NaN _ = False"
| "js_le _ NaN = False"
| "js_le a b = (a = b \<or> js_less a b)"

fun isNaN :: "jsnum \<Rightarrow> bool" where
  "isNaN NaN = True"
| "isNaN _ = False"

text \<open>\<^verbatim>\<open>Math.floor\<close>.\<close>

fun js_floor :: "jsnum \<Rightarrow> jsnum" where
  "js_floor (Fin r) = Fin (of_int \<lfloor>r\<rfloor>)"
| "js_floor n = n"

definition js_of_nat :: "nat \<Rightarrow> jsnum" where
  "js_of_nat n = Fin (of_nat n)"

text \<open>The list index a finite non-negative integral number stands for.\<close>

fun js_index :: "jsnum \<Rightarrow> nat" where
  "js_index (Fin r) = nat \<lfloor>r\<rfloor>"
| "js_index _ = 0"

subsection \<open>Numbers and other values as strings\<close>

definition is_digit :: "char \<Rightarrow> bool" where
  "is_digit c = (c \<in> set ''0123456789'')"

definition digit_val :: "char \<Rightarrow> int" where
  "digit_val c = of_char c - 48"

definition int_of_digits :: "string \<Rightarrow> int" where
  "int_of_digits s = foldl (\<lambda>n c. 10 * n + digit_val c) 0 s"

text \<open>The decimal digits of a number that is not negative.\<close>

function digits_of :: "int \<Rightarrow> string" where
  "digits_of n =
     (if n < 10 then [char_of (48 + n)]
      else digits_of (n div 10) @ [char_of (48 + n mod 10)])"
  by pat_completeness auto
termination
  by (relation "measure nat") auto

declare digits_of.simps [simp del]

definition string_of_nat :: "nat \<Rightarrow> string" where
  "string_of_nat n = digits_of (int n)"

definition string_of_int :: "int \<Rightarrow> string" where
  "string_of_int i = (if i < 0 then CHR ''-'' # digits_of (- i) else digits_of i)"

text \<open>
  \<^verbatim>\<open>'' + n\<close> for a number: its decimal digits, with a sign when negative, below the
  magnitude \<open>10^21\<close>; from there on the host's form with an exponent.
\<close>

definition number_string :: "host \<Rightarrow> int \<Rightarrow> string" where
  "number_string h n =
     (if \<bar>n\<bar> < 1000000000000000000000 then string_of_int n else exp_string h n)"

fun join_with :: "string \<Rightarrow> string list \<Rightarrow> string" where
  "join_with sep [] = []"
| "join_with sep [s] = s"
| "join_with sep (s # t # ss) = s @ sep @ join_with sep (t # ss)"

text \<open>
  The string a value is coerced to where it is used as a property name: a list is the
  texts of its elements joined by commas, an absent or null element giving the empty
  text; a map is \<^verbatim>\<open>[object Object]\<close>. (A map that has a property \<^verbatim>\<open>toString\<close> or
  \<^verbatim>\<open>valueOf\<close> of its own is coerced by that property in the host; such keys are not
  modelled.)
\<close>

fun to_string :: "host \<Rightarrow> val \<Rightarrow> string" where
  "to_string h (Str s) = s"
| "to_string h (Num n) = number_string h n"
| "to_string h (Bool b) = (if b then ''true'' else ''false'')"
| "to_string h Null = ''null''"
| "to_string h Undef = ''undefined''"
| "to_string h (Func f) = func_string h f"
| "to_string h (Map m) = ''[object Object]''"
| "to_string h (List xs) =
     join_with '','' (map (\<lambda>x. if x = Undef \<or> x = Null then [] else to_string h x) xs)"

text \<open>
  A property name that is an array index: the decimal digits of a number below
  \<open>2^32 - 1\<close>, with no leading zero. The own properties of a map are enumerated with
  these names first.
\<close>

definition array_index :: "string \<Rightarrow> nat option" where
  "array_index s =
     (if s \<noteq> [] \<and> (\<forall>c \<in> set s. is_digit c) \<and> (s = ''0'' \<or> hd s \<noteq> CHR ''0'')
         \<and> int_of_digits s < 4294967295
      then Some (nat (int_of_digits s)) else None)"

text \<open>The index below \<open>n\<close> that a property name is the decimal text of, if there is one.\<close>

definition own_index :: "string \<Rightarrow> nat \<Rightarrow> nat option" where
  "own_index k n = find (\<lambda>i. string_of_nat i = k) [0..<n]"

subsection \<open>Properties of maps and lists\<close>

text \<open>
  \<^verbatim>\<open>val[key]\<close>: the own property of a map, or else the one it inherits; the element of a
  list, its length, or else what it inherits; the member of any other value.
\<close>

fun lookup_prop :: "host \<Rightarrow> val \<Rightarrow> val \<Rightarrow> val" where
  "lookup_prop h (Map m) key =
     (let k = to_string h key
      in case map_of m k of None \<Rightarrow> obj_inherited h k | Some v \<Rightarrow> v)"
| "lookup_prop h (List xs) key =
     (let k = to_string h key
      in case own_index k (length xs) of
           Some i \<Rightarrow> xs ! i
         | None \<Rightarrow> if k = ''length'' then Num (int (length xs)) else arr_inherited h k)"
| "lookup_prop h v key = prim_member h v (to_string h key)"

text \<open>\<^verbatim>\<open>delete parent[key]\<close>: an inherited property stays.\<close>

definition obj_delete :: "string \<Rightarrow> (string \<times> 'a) list \<Rightarrow> (string \<times> 'a) list" where
  "obj_delete k m = filter (\<lambda>kv. fst kv \<noteq> k) m"

fun obj_update :: "string \<Rightarrow> 'a \<Rightarrow> (string \<times> 'a) list \<Rightarrow> (string \<times> 'a) list" where
  "obj_update k v [] = []"
| "obj_update k v (kv # m) = (if fst kv = k then (k, v) # m else kv # obj_update k v m)"

text \<open>
  A new property goes behind the others, except that array-index names are kept in
  front, in ascending order.
\<close>

fun insert_index :: "nat \<Rightarrow> string \<Rightarrow> 'a \<Rightarrow> (string \<times> 'a) list \<Rightarrow> (string \<times> 'a) list" where
  "insert_index i k v [] = [(k, v)]"
| "insert_index i k v (kv # m) =
     (case array_index (fst kv) of
        Some j \<Rightarrow> if j < i then kv # insert_index i k v m else (k, v) # kv # m
      | None \<Rightarrow> (k, v) # kv # m)"

definition obj_insert :: "string \<Rightarrow> 'a \<Rightarrow> (string \<times> 'a) list \<Rightarrow> (string \<times> 'a) list" where
  "obj_insert k v m =
     (case array_index k of None \<Rightarrow> m @ [(k, v)] | Some i \<Rightarrow> insert_index i k v m)"

text \<open>
  \<^verbatim>\<open>parent[key] = val\<close> on a map. An own property is overwritten. The name
  \<^verbatim>\<open>__proto__\<close>, when the map has no such property of its own, reaches the setter that
  every map inherits: no property is stored. (Given a node, that setter replaces what
  the map inherits; the model keeps what the map inherits fixed.) Any other name
  becomes a new own property.
\<close>

definition obj_put :: "string \<Rightarrow> 'a \<Rightarrow> (string \<times> 'a) list \<Rightarrow> (string \<times> 'a) list" where
  "obj_put k v m =
     (if k \<in> fst ` set m then obj_update k v m
      else if k = ''__proto__'' then m
      else obj_insert k v m)"

text \<open>\<^verbatim>\<open>parent[i] = val\<close> on a list: beyond the end the list is extended.\<close>

definition arr_set :: "val list \<Rightarrow> nat \<Rightarrow> val \<Rightarrow> val list" where
  "arr_set xs i v =
     (if i < length xs then xs[i := v] else xs @ replicate (i - length xs) Undef @ [v])"

section \<open>Value predicates and safe accessors\<close>

fun isnode :: "val \<Rightarrow> bool" where
  "isnode (List _) = True"
| "isnode (Map _) = True"
| "isnode _ = False"

fun ismap :: "val \<Rightarrow> bool" where
  "ismap (Map _) = True"
| "ismap _ = False"

fun islist :: "val \<Rightarrow> bool" where
  "islist (List _) = True"
| "islist _ = False"

fun iskey :: "val \<Rightarrow> bool" where
  "iskey (Str s) = (s \<noteq> [])"
| "iskey (Num _) = True"
| "iskey _ = False"

fun isempty :: "val \<Rightarrow> bool" where
  "isempty Undef = True"
| "isempty Null = True"
| "isempty (Str s) = (s = [])"
| "isempty (List xs) = (xs = [])"
| "isempty (Map m) = (m = [])"
| "isempty _ = False"

fun isfunc :: "val \<Rightarrow> bool" where
  "isfunc (Func _) = True"
| "isfunc _ = False"

definition getprop :: "host \<Rightarrow> val \<Rightarrow> val \<Rightarrow> val \<Rightarrow> val" where
  "getprop h val key alt =
     (if val = Undef \<or> key = Undef then alt
      else let out = (if isnode val then lookup_prop h val key else alt)
           in if out = Undef then alt else out)"

definition keysof :: "val \<Rightarrow> string list" where
  "keysof val =
     (if \<not> isnode val then []
      else case val of
             Map m \<Rightarrow> sort (map fst m)
           | List xs \<Rightarrow> map string_of_nat [0..<length xs]
           | _ \<Rightarrow> [])"

definition haskey :: "host \<Rightarrow> val \<Rightarrow> val \<Rightarrow> bool" where
  "haskey h val key = (getprop h val key Undef \<noteq> Undef)"

definition items :: "host \<Rightarrow> val \<Rightarrow> (string \<times> val) list" where
  "items h val = map (\<lambda>k. (k, lookup_prop h val (Str k))) (keysof val)"

subsection \<open>setprop\<close>

text \<open>The coercion \<^verbatim>\<open>+key\<close>: a number is itself, a string is coerced by the host.\<close>

fun to_number :: "host \<Rightarrow> val \<Rightarrow> jsnum" where
  "to_number h (Num n) = Fin (of_int n)"
| "to_number h (Str s) = tonum h s"
| "to_number h _ = NaN"

text \<open>\<^verbatim>\<open>S_MT + key\<close> for a key that \<open>iskey\<close> accepts.\<close>

fun key_string :: "host \<Rightarrow> val \<Rightarrow> string" where
  "key_string h (Str s) = s"
| "key_string h (Num n) = number_string h n"
| "key_string h _ = []"

text \<open>
  The loop \<^verbatim>\<open>for (pI = keyI; pI < parent.length - 1; pI++) parent[pI] = parent[pI + 1]\<close>.
\<close>

function shift_down :: "nat \<Rightarrow> val list \<Rightarrow> val list" where
  "shift_down pI parent =
     (if pI < length parent - 1
      then shift_down (pI + 1) (parent[pI := parent ! (pI + 1)])
      else parent)"
  by pat_completeness auto
termination
  by (relation "measure (\<lambda>(pI, parent). length parent - pI)") auto

declare shift_down.simps [simp del]

definition setprop :: "host \<Rightarrow> val \<Rightarrow> val \<Rightarrow> val \<Rightarrow> val" where
  "setprop h parent key v =
     (if \<not> iskey key then parent
      else case parent of
        Map m \<Rightarrow>
          (let k = key_string h key
           in if v = Undef then Map (obj_delete k m) else Map (obj_put k v m))
      | List xs \<Rightarrow>
          (let keyI = to_number h key
           in if isNaN keyI then parent
              else let keyI = js_floor keyI
                   in if v = Undef
                      then (if js_le (Fin 0) keyI \<and> js_less keyI (js_of_nat (length xs))
                            then (let ys = shift_down (js_index keyI) xs
                                  in List (take (length ys - 1) ys))
                            else parent)
                      else if js_le (Fin 0) keyI
                      then List (arr_set xs
                                   (if js_less (js_of_nat (length xs)) keyI then length xs
                                    else js_index keyI) v)
                      else List (v # xs))
      | _ \<Rightarrow> parent)"

section \<open>Deep clone\<close>

text \<open>
  \<^verbatim>\<open>clone\<close> writes the value as JSON text and reads it back. On the way out a function
  is replaced by the string \<^verbatim>\<open>`$FUNCTION:n`\<close>, \<open>n\<close> its position among the functions
  met so far; an absent list element is written as null and a map entry with an absent
  value is left out. On the way back every string of that form is replaced by the
  function in position \<open>n\<close>, and dropped when there is none. (A map with a function
  under the name \<^verbatim>\<open>toJSON\<close> is written by that function in the host; such maps are not
  modelled.)
\<close>

fun funcs_of :: "val \<Rightarrow> nat list" where
  "funcs_of (Func f) = [f]"
| "funcs_of (List xs) = concat (map funcs_of xs)"
| "funcs_of (Map m) = concat (map (\<lambda>kv. funcs_of (snd kv)) m)"
| "funcs_of _ = []"

text \<open>The digits \<open>n\<close> of a string matching \<^verbatim>\<open>/^`\$FUNCTION:([0-9]+)`$/\<close>.\<close>

definition func_ref :: "string \<Rightarrow> string option" where
  "func_ref s =
     (let p = ''`$FUNCTION:''; ds = butlast (drop (length p) s)
      in if take (length p) s = p \<and> length p < length s \<and> last s = CHR ''`''
            \<and> ds \<noteq> [] \<and> (\<forall>c \<in> set ds. is_digit c)
         then Some ds else None)"

text \<open>\<^verbatim>\<open>refs[m[1]]\<close>: the digits name an element of \<^verbatim>\<open>refs\<close> when they are an index.\<close>

definition revive :: "nat list \<Rightarrow> string \<Rightarrow> val" where
  "revive refs s =
     (case func_ref s of
        None \<Rightarrow> Str s
      | Some ds \<Rightarrow>
          (case own_index ds (length refs) of
             None \<Rightarrow> Undef
           | Some n \<Rightarrow> Func (refs ! n)))"

fun clone_val :: "nat list \<Rightarrow> val \<Rightarrow> val" where
  "clone_val refs (Str s) = revive refs s"
| "clone_val refs (List xs) =
     List (map (\<lambda>x. if x = Undef then Null else clone_val refs x) xs)"
| "clone_val refs (Map m) =
     Map (filter (\<lambda>kv. snd kv \<noteq> Undef)
            (map (\<lambda>kv. (fst kv, if snd kv = Undef then Undef else clone_val refs (snd kv))) m))"
| "clone_val refs v = v"

definition clone :: "val \<Rightarrow> val" where
  "clone v = (if v = Undef then Undef else clone_val (funcs_of v) v)"

section \<open>Path resolver\<close>

text \<open>\<^verbatim>\<open>path.split('.')\<close>.\<close>

fun split_dot :: "string \<Rightarrow> string list" where
  "split_dot [] = [[]]"
| "split_dot (c # s) =
     (if c = CHR ''.'' then [] # split_dot s
      else case split_dot s of p # ps \<Rightarrow> (c # p) # ps | [] \<Rightarrow> [[c]])"

datatype inject_mode = KeyPre | KeyPost | ValMode

text \<open>
  The fields of the injection state that the functions modelled here read or write.
  The handler is given the found value, the current value, the path and the store; the
  source hands it the state and \<^verbatim>\<open>pathify(path)\<close> as well.
\<close>

record injection =
  mode :: inject_mode
  key :: string
  parent :: val
  base :: val
  handler :: "(val \<Rightarrow> val \<Rightarrow> val \<Rightarrow> val \<Rightarrow> val) option"

text \<open>The list of parts a path stands for; none when it is neither a list nor a string.\<close>

definition path_parts :: "val \<Rightarrow> val list option" where
  "path_parts path =
     (case path of
        List ps \<Rightarrow> Some ps
      | Str s \<Rightarrow> Some (map Str (split_dot s))
      | _ \<Rightarrow> None)"

text \<open>
  The loop \<^verbatim>\<open>for (pI++; UNDEF !== val && pI < parts.length; pI++) val = getprop(val, parts[pI])\<close>,
  on the parts that are left.
\<close>

fun descend :: "host \<Rightarrow> val \<Rightarrow> val list \<Rightarrow> val" where
  "descend h v [] = v"
| "descend h v (p # ps) = (if v = Undef then v else descend h (getprop h v p Undef) ps)"

definition getpath :: "host \<Rightarrow> val \<Rightarrow> val \<Rightarrow> val \<Rightarrow> injection option \<Rightarrow> val" where
  "getpath h path store current state =
     (case path_parts path of
        None \<Rightarrow> Undef
      | Some parts \<Rightarrow>
          (let bs = (case state of None \<Rightarrow> Undef | Some st \<Rightarrow> base st);
               v = (if path = Undef \<or> path = Null \<or> store = Undef \<or> store = Null
                       \<or> (length parts = 1 \<and> parts ! 0 = Str [])
                    then getprop h store bs store
                    else if 0 < length parts
                    then (let pI = (if parts ! 0 = Str [] then 1 else 0);
                              root = (if parts ! 0 = Str [] then current else store);
                              part = (if pI < length parts then parts ! pI else Undef);
                              first = getprop h root part Undef;
                              v0 = (if first = Undef \<and> pI = 0
                                    then getprop h (getprop h root bs Undef) part Undef
                                    else first)
                          in descend h v0 (drop (pI + 1) parts))
                    else store)
           in case state of
                None \<Rightarrow> v
              | Some st \<Rightarrow>
                  (case handler st of None \<Rightarrow> v | Some f \<Rightarrow> f v current path store)))"

section \<open>Depth-first walker\<close>

text \<open>
  \<^verbatim>\<open>walk\<close> visits the children of a node first, in the order of \<^verbatim>\<open>items\<close>, writes each
  result back with \<^verbatim>\<open>setprop\<close>, and applies the visitor to the node afterwards. The
  visitor of the source may have effects; here it takes a state \<open>'s\<close> and returns the
  new one. The accumulator of the fold is the node as changed so far and that state.
\<close>

function (sequential) walk ::
  "host \<Rightarrow> (val \<Rightarrow> val \<Rightarrow> val \<Rightarrow> string list \<Rightarrow> 's \<Rightarrow> val \<times> 's)
     \<Rightarrow> val \<Rightarrow> val \<Rightarrow> val \<Rightarrow> string list \<Rightarrow> 's \<Rightarrow> val \<times> 's" where
  "walk h apply (List xs) k par path s =
     (case fold (\<lambda>ck acc.
                   case walk h apply (snd ck) (Str (fst ck)) (fst acc) (path @ [fst ck]) (snd acc)
                   of (r, st') \<Rightarrow> (setprop h (fst acc) (Str (fst ck)) r, st'))
                (items h (List xs)) (List xs, s)
      of (v', s') \<Rightarrow> apply k v' par path s')"
| "walk h apply (Map m) k par path s =
     (case fold (\<lambda>ck acc.
                   case walk h apply (snd ck) (Str (fst ck)) (fst acc) (path @ [fst ck]) (snd acc)
                   of (r, st') \<Rightarrow> (setprop h (fst acc) (Str (fst ck)) r, st'))
                (items h (Map m)) (Map m, s)
      of (v', s') \<Rightarrow> apply k v' par path s')"
| "walk h apply v k par path s = apply k v par path s"
  by pat_completeness auto
termination
proof (relation "measure (\<lambda>(h, apply, v, k, par, path, s). size v)", goal_cases)
  case 1
  show ?case by simp
next
  case (2 h f xs k par path s ck acc)
  have el: "size y \<le> size_list size ys" if "y \<in> set ys" for y :: val and ys
    using that by (induction ys) auto
  from 2 obtain i where i: "i < length xs" "ck = (string_of_nat i, lookup_prop h (List xs) (Str (string_of_nat i)))"
    by (auto simp: items_def keysof_def simp del: lookup_prop.simps)
  have "\<exists>j. own_index (string_of_nat i) (length xs) = Some j"
    using i(1) by (cases "own_index (string_of_nat i) (length xs)")
                  (auto simp: own_index_def find_None_iff)
  then obtain j where j: "own_index (string_of_nat i) (length xs) = Some j" by blast
  then have "j < length xs" by (auto simp: own_index_def find_Some_iff)
  then have "size (xs ! j) \<le> size_list size xs" by (simp add: el)
  then have "size (snd ck) < size (List xs)" using i j by simp
  then show ?case by simp
next
  case (3 h f m k par path s ck acc)
  have mp: "size y \<le> size_list (size_prod (\<lambda>_. 0) size) mm"
    if "map_of mm kk = Some y" for y :: val and mm and kk :: string
    using that by (induction mm) (auto split: if_splits)
  from 3 obtain q where q: "q \<in> fst ` set m" "ck = (q, lookup_prop h (Map m) (Str q))"
    by (auto simp: items_def keysof_def simp del: lookup_prop.simps)
  then obtain y where y: "map_of m q = Some y"
    by (cases "map_of m q") (auto simp: map_of_eq_None_iff)
  then have "size y \<le> size_list (size_prod (\<lambda>_. 0) size) m" by (rule mp)
  then have "size (snd ck) < size (Map m)" using q y by simp
  then show ?case by simp
qed

section \<open>Deep merge\<close>

text \<open>
  The visitor \<^verbatim>\<open>merger\<close> of \<^verbatim>\<open>merge\<close> keeps the accumulator \<^verbatim>\<open>out\<close> and a stack \<^verbatim>\<open>cur\<close> of
  nodes, one for each depth of the node being walked. An entry of the stack is unset, or
  it is a node inside \<^verbatim>\<open>out\<close>, which the source changes in place (\<open>Alias\<close>, with the
  keys that lead to it from \<^verbatim>\<open>out\<close>), or it is a value that is not part of \<^verbatim>\<open>out\<close>
  (\<open>Fresh\<close>). Writing to an \<open>Alias\<close> entry changes \<^verbatim>\<open>out\<close> at that place. The model
  follows the source on trees of own properties that hold no absent element; a change
  to a node that is inherited is not modelled.
\<close>

datatype slot = Unset | Alias "string list" | Fresh val

text \<open>\<^verbatim>\<open>cur[i]\<close> and \<^verbatim>\<open>cur[i] = e\<close>.\<close>

definition slot_get :: "slot list \<Rightarrow> nat \<Rightarrow> slot" where
  "slot_get cur i = (if i < length cur then cur ! i else Unset)"

definition slot_set :: "slot list \<Rightarrow> nat \<Rightarrow> slot \<Rightarrow> slot list" where
  "slot_set cur i e =
     (if i < length cur then cur[i := e] else cur @ replicate (i - length cur) Unset @ [e])"

text \<open>The node in place of the own property \<open>k\<close> of a node, the rest of the node unchanged.\<close>

definition replace_prop :: "val \<Rightarrow> string \<Rightarrow> val \<Rightarrow> val" where
  "replace_prop node k v =
     (case node of
        Map m \<Rightarrow> Map (obj_update k v m)
      | List xs \<Rightarrow>
          (case own_index k (length xs) of
             Some i \<Rightarrow> List (xs[i := v])
           | None \<Rightarrow> node)
      | _ \<Rightarrow> node)"

fun node_at :: "host \<Rightarrow> val \<Rightarrow> string list \<Rightarrow> val" where
  "node_at h v [] = v"
| "node_at h v (k # ks) = node_at h (lookup_prop h v (Str k)) ks"

fun update_at :: "host \<Rightarrow> val \<Rightarrow> string list \<Rightarrow> (val \<Rightarrow> val) \<Rightarrow> val" where
  "update_at h v [] f = f v"
| "update_at h v (k # ks) f = replace_prop v k (update_at h (lookup_prop h v (Str k)) ks f)"

definition slot_val :: "host \<Rightarrow> val \<Rightarrow> slot \<Rightarrow> val" where
  "slot_val h out e =
     (case e of Unset \<Rightarrow> Undef | Alias loc \<Rightarrow> node_at h out loc | Fresh v \<Rightarrow> v)"

text \<open>
  \<^verbatim>\<open>cur[cI] = getpath(path.slice(0, lenpath - 1), out)\<close>. A node that is found lies in
  \<^verbatim>\<open>out\<close> under the keys of the path, or is \<^verbatim>\<open>out\<close> itself when the path is the single
  empty key.
\<close>

definition fetch :: "host \<Rightarrow> val \<Rightarrow> string list \<Rightarrow> slot" where
  "fetch h out parts =
     (let v = getpath h (List (map Str parts)) out Undef None
      in if v = Undef then Unset
         else if isnode v then Alias (if parts = [[]] then [] else parts)
         else Fresh v)"

text \<open>\<^verbatim>\<open>setprop(cur[i], key, x)\<close>.\<close>

definition slot_setprop ::
  "host \<Rightarrow> val \<times> slot list \<Rightarrow> nat \<Rightarrow> val \<Rightarrow> val \<Rightarrow> val \<times> slot list" where
  "slot_setprop h st i k x =
     (case slot_get (snd st) i of
        Unset \<Rightarrow> st
      | Alias loc \<Rightarrow> (update_at h (fst st) loc (\<lambda>n. setprop h n k x), snd st)
      | Fresh n \<Rightarrow> (fst st, slot_set (snd st) i (Fresh (setprop h n k x))))"

definition merger ::
  "host \<Rightarrow> val \<Rightarrow> val \<Rightarrow> val \<Rightarrow> string list \<Rightarrow> val \<times> slot list
     \<Rightarrow> val \<times> (val \<times> slot list)" where
  "merger h k v par path st =
     (if k = Undef \<or> k = Null then (v, st)
      else
        (let out = fst st;
             lenpath = length path;
             cI = lenpath - 1;
             cur1 = (if slot_get (snd st) cI = Unset
                     then slot_set (snd st) cI (fetch h out (take (lenpath - 1) path))
                     else snd st);
             cur2 = (if \<not> isnode (slot_val h out (slot_get cur1 cI))
                     then slot_set cur1 cI (Fresh (if islist par then List [] else Map []))
                     else cur1)
         in if isnode v \<and> \<not> isempty v
            then (let st3 = slot_setprop h (out, cur2) cI k
                              (slot_val h out (slot_get cur2 (cI + 1)))
                  in (v, (fst st3, slot_set (snd st3) (cI + 1) Unset)))
            else (v, slot_setprop h (out, cur2) cI k v)))"

text \<open>
  One round of the loop of \<^verbatim>\<open>merge\<close>, for the element at index \<open>oI\<close>. The state is the
  list, the index of the element that \<^verbatim>\<open>out\<close> is (none when \<^verbatim>\<open>out\<close> is the empty map made
  for an absent first element), and \<^verbatim>\<open>out\<close>. The structural merge changes \<^verbatim>\<open>out\<close> in place,
  and so the element of the list that \<^verbatim>\<open>out\<close> is.
\<close>

definition merge_step ::
  "host \<Rightarrow> nat \<Rightarrow> val list \<times> nat option \<times> val \<Rightarrow> val list \<times> nat option \<times> val" where
  "merge_step h oI st =
     (let xs = fst st; src = fst (snd st); out = snd (snd st); obj = xs ! oI
      in if \<not> isnode obj then (xs, Some oI, obj)
         else if \<not> isnode out \<or> (ismap obj \<and> islist out) \<or> (islist obj \<and> ismap out)
         then (xs, Some oI, obj)
         else (let out' = fst (snd (walk h (merger h) obj Undef Undef [] (out, [Alias []])))
               in ((case src of None \<Rightarrow> xs | Some i \<Rightarrow> xs[i := out']), src, out')))"

text \<open>\<^verbatim>\<open>merge\<close>: the result, and the argument as the call leaves it.\<close>

definition merge_run :: "host \<Rightarrow> val \<Rightarrow> val \<times> val" where
  "merge_run h v =
     (case v of
        List xs \<Rightarrow>
          (let lenlist = length xs
           in if lenlist = 0 then (Undef, v)
              else if lenlist = 1 then (xs ! 0, v)
              else (let out = getprop h v (Num 0) (Map []);
                        src = (if xs ! 0 = Undef then None else Some 0);
                        st = fold (merge_step h) [1..<lenlist] (xs, src, out)
                    in (snd (snd st), List (fst st))))
      | _ \<Rightarrow> (v, v))"

definition merge :: "host \<Rightarrow> val \<Rightarrow> val" where
  "merge h v = fst (merge_run h v)"

section \<open>Injection: key order and the merge directive\<close>

text \<open>
  The keys \<^verbatim>\<open>inject\<close> iterates over for a node (\<^verbatim>\<open>origkeys\<close>, lines 696 to 699): for a
  map, \<^verbatim>\<open>Object.keys(val)\<close> without the keys that contain a dollar sign, followed by the
  keys that contain one, sorted; for a list, its indexes. The loop of \<^verbatim>\<open>inject\<close> takes
  the keys in the order of this list.
\<close>

definition includes_DS :: "string \<Rightarrow> bool" where
  "includes_DS k = (CHR ''$'' \<in> set k)"

definition inject_origkeys :: "val \<Rightarrow> val list" where
  "inject_origkeys v =
     (case v of
        Map m \<Rightarrow>
          map Str (filter (\<lambda>k. \<not> includes_DS k) (map fst m)
                   @ sort (filter includes_DS (map fst m)))
      | List xs \<Rightarrow> map (\<lambda>i. Num (int i)) [0..<length xs]
      | _ \<Rightarrow> [])"

datatype js_error = TypeError | Error string

text \<open>
  \<^verbatim>\<open>current.$TOP\<close>: reading a member of the undefined value or of null raises a type
  error.
\<close>

definition get_member :: "host \<Rightarrow> val \<Rightarrow> string \<Rightarrow> js_error + val" where
  "get_member h v k =
     (if v = Undef \<or> v = Null then Inl TypeError else Inr (lookup_prop h v (Str k)))"

text \<open>
  \<^verbatim>\<open>transform_MERGE\<close> returns a value and changes the parent of the state in place; the
  model returns the value and the state with the parent as the call leaves it.
\<close>

definition transform_MERGE ::
  "host \<Rightarrow> injection \<Rightarrow> val \<Rightarrow> val \<Rightarrow> js_error + val \<times> injection" where
  "transform_MERGE h state v current =
     (if mode state = KeyPre then Inr (Str (key state), state)
      else if mode state = KeyPost
      then (let args0 = getprop h (parent state) (Str (key state)) Undef
            in case (if args0 = Str []
                     then (case get_member h current ''$TOP'' of
                             Inl e \<Rightarrow> Inl e
                           | Inr t \<Rightarrow> Inr [t])
                     else Inr (case args0 of List xs \<Rightarrow> xs | _ \<Rightarrow> [args0]))
               of Inl e \<Rightarrow> Inl e
                | Inr args \<Rightarrow>
                    (let par1 = setprop h (parent state) (Str (key state)) Undef;
                         mergelist = par1 # args @ [clone par1];
                         after = snd (merge_run h (List mergelist))
                     in Inr (Str (key state),
                             state\<lparr>parent := (case after of List ys \<Rightarrow> ys ! 0 | _ \<Rightarrow> par1)\<rparr>)))
      else Inr (Undef, state))"

section \<open>Validation facade\<close>










section \<open>A host for the examples\<close>

text \<open>
  The examples below are evaluated in this host. It coerces a string of decimal digits,
  with or without a minus sign in front, to the number it denotes and any other string
  to not-a-number; the examples use no other string as the key of a list. A map
  inherits the properties of \<^verbatim>\<open>Object.prototype\<close>, a list those of \<^verbatim>\<open>Array.prototype\<close> as
  well, each a function, and under \<^verbatim>\<open>__proto__\<close> the prototype itself. The examples
  read no member of a value that is not a node.
\<close>

definition decimal_tonum :: "string \<Rightarrow> jsnum" where
  "decimal_tonum s =
     (if s \<noteq> [] \<and> (\<forall>c \<in> set s. is_digit c) then Fin (of_int (int_of_digits s))
      else if s \<noteq> [] \<and> hd s = CHR ''-'' \<and> tl s \<noteq> [] \<and> (\<forall>c \<in> set (tl s). is_digit c)
      then Fin (- of_int (int_of_digits (tl s)))
      else NaN)"

text \<open>
  The form with an exponent: the first digit, the other digits up to the last that is not
  zero, and the power of ten. It is the host's text for a number of at most fifteen
  significant digits.
\<close>

definition exponent_form :: "int \<Rightarrow> string" where
  "exponent_form n =
     (let ds = digits_of \<bar>n\<bar>;
          sig = rev (dropWhile (\<lambda>c. c = CHR ''0'') (rev ds))
      in (if n < 0 then ''-'' else []) @ [hd sig]
         @ (if tl sig = [] then [] else CHR ''.'' # tl sig)
         @ ''e+'' @ string_of_nat (length ds - 1))"

definition object_prototype_names :: "string list" where
  "object_prototype_names =
     [''constructor'', ''__defineGetter__'', ''__defineSetter__'', ''hasOwnProperty'',
      ''__lookupGetter__'', ''__lookupSetter__'', ''isPrototypeOf'',
      ''propertyIsEnumerable'', ''toString'', ''valueOf'', ''toLocaleString'']"

definition array_prototype_names :: "string list" where
  "array_prototype_names =
     [''at'', ''concat'', ''copyWithin'', ''fill'', ''find'', ''findIndex'', ''findLast'',
      ''findLastIndex'', ''lastIndexOf'', ''pop'', ''push'', ''reverse'', ''shift'',
      ''unshift'', ''slice'', ''sort'', ''splice'', ''includes'', ''indexOf'', ''join'',
      ''keys'', ''entries'', ''values'', ''forEach'', ''filter'', ''flat'', ''flatMap'',
      ''map'', ''every'', ''some'', ''reduce'', ''reduceRight'', ''toReversed'',
      ''toSorted'', ''toSpliced'', ''with'']"

text \<open>The function in position \<open>i\<close> of a list of names has the identifier \<open>1000 + i\<close>.\<close>

definition inherited_from :: "string list \<Rightarrow> val \<Rightarrow> string \<Rightarrow> val" where
  "inherited_from names proto k =
     (if k = ''__proto__'' then proto
      else case find (\<lambda>i. names ! i = k) [0..<length names] of
             Some i \<Rightarrow> Func (1000 + i)
           | None \<Rightarrow> Undef)"

definition example_host :: host where
  "example_host =
     \<lparr> tonum = decimal_tonum,
       exp_string = exponent_form,
       func_string = (\<lambda>f. ''function'' @ string_of_nat f),
       obj_inherited = inherited_from object_prototype_names (Map []),
       arr_inherited =
         inherited_from (array_prototype_names @ object_prototype_names) (List []),
       prim_member = (\<lambda>v k. Undef) \<rparr>"

section \<open>Notions used in the statements\<close>



text \<open>A state without a handler, and the base a state names.\<close>

definition no_handler :: "injection option \<Rightarrow> bool" where
  "no_handler state = (case state of None \<Rightarrow> True | Some st \<Rightarrow> handler st = None)"

definition state_base :: "injection option \<Rightarrow> val" where
  "state_base state = (case state of None \<Rightarrow> Undef | Some st \<Rightarrow> base st)"

text \<open>What a call of the directive raises, or the value it returns and the parent it leaves.\<close>

definition outcome :: "js_error + val \<times> injection \<Rightarrow> js_error + val \<times> val" where
  "outcome r = (case r of Inl e \<Rightarrow> Inl e | Inr p \<Rightarrow> Inr (fst p, parent (snd p)))"

section \<open>Properties of the accessors\<close>

lemma length_shift_down: "length (shift_down i xs) = length xs"
proof (induction i xs rule: shift_down.induct)
  case (1 pI ys)
  show ?case
    using 1 by (subst shift_down.simps) simp
qed

lemma shift_down_eq:
  "i < length xs \<Longrightarrow> shift_down i xs = take i xs @ drop (Suc i) xs @ [last xs]"
proof (induction i xs rule: shift_down.induct)
  case (1 pI ys)
  show ?case
  proof (cases "pI < length ys - 1")
    case True
    let ?xs' = "ys[pI := ys ! (pI + 1)]"
    have ih: "shift_down (pI + 1) ?xs'
              = take (pI + 1) ?xs' @ drop (Suc (pI + 1)) ?xs' @ [last ?xs']"
      using 1 True by simp
    have t: "take (pI + 1) ?xs' = take pI ys @ [ys ! (pI + 1)]"
      using True by (simp add: take_Suc_conv_app_nth)
    have d: "drop (Suc (pI + 1)) ?xs' = drop (Suc (pI + 1)) ys"
      by simp
    have l: "last ?xs' = last ys"
    proof -
      have "ys \<noteq> []" using True by auto
      then show ?thesis using True by (simp add: last_conv_nth)
    qed
    have c: "drop (Suc pI) ys = ys ! (pI + 1) # drop (Suc (pI + 1)) ys"
      using True by (simp add: Cons_nth_drop_Suc)
    show ?thesis
      using True ih t d l c by (subst shift_down.simps) simp
  next
    case False
    with 1(2) have e: "pI = length ys - 1" by simp
    have ne: "ys \<noteq> []" using 1(2) by auto
    have "take pI ys = butlast ys" using e by (simp add: butlast_conv_take)
    then show ?thesis
      using False e ne by (subst shift_down.simps) simp
  qed
qed

text \<open>The shifting loop followed by the cut of the last slot removes exactly element \<open>i\<close>.\<close>

lemma shift_down_remove:
  "i < length xs \<Longrightarrow>
   take (length (shift_down i xs) - 1) (shift_down i xs) = take i xs @ drop (Suc i) xs"
proof -
  assume a: "i < length xs"
  have "length (take i xs @ drop (Suc i) xs) = length xs - 1" using a by simp
  then show ?thesis
    using a by (simp add: shift_down_eq length_shift_down del: length_take length_drop)
qed

lemma map_of_obj_update: "k \<in> fst ` set m \<Longrightarrow> map_of (obj_update k v m) k = Some v"
  by (induction m) auto

lemma map_of_insert_index: "k \<notin> fst ` set m \<Longrightarrow> map_of (insert_index i k v m) k = Some v"
  by (induction m) (auto split: option.splits)

lemma map_of_obj_insert: "k \<notin> fst ` set m \<Longrightarrow> map_of (obj_insert k v m) k = Some v"
  by (auto simp: obj_insert_def map_of_insert_index map_add_def
                 map_of_eq_None_iff[symmetric] split: option.splits)

lemma map_of_obj_put:
  "k \<noteq> ''__proto__'' \<or> k \<in> fst ` set m \<Longrightarrow> map_of (obj_put k v m) k = Some v"
  by (auto simp: obj_put_def map_of_obj_update map_of_obj_insert)

lemma map_of_obj_delete: "map_of (obj_delete k m) k = None"
  by (auto simp: obj_delete_def map_of_eq_None_iff)

text \<open>
  Claim C3. On a list \<open>l\<close> and a number key \<open>i\<close>: setting the absent value at an index
  \<open>0 \<le> i < length l\<close> removes element \<open>i\<close> and moves every later element down by one,
  so the list gets one shorter and has no hole; setting a value \<open>x\<close> that is not absent
  at \<open>i \<ge> length l\<close> appends \<open>x\<close> at the end (at index \<open>length l\<close>, not at \<open>i\<close>); at
  \<open>i < 0\<close> it puts \<open>x\<close> in front; at \<open>0 \<le> i < length l\<close> it overwrites element \<open>i\<close>.
\<close>

theorem setprop_list_index:
  "(0 \<le> i \<and> i < int (length l) \<longrightarrow>
      setprop h (List l) (Num i) Undef = List (take (nat i) l @ drop (Suc (nat i)) l))
   \<and> (x \<noteq> Undef \<and> int (length l) \<le> i \<longrightarrow>
      setprop h (List l) (Num i) x = List (l @ [x]))
   \<and> (x \<noteq> Undef \<and> i < 0 \<longrightarrow>
      setprop h (List l) (Num i) x = List (x # l))
   \<and> (x \<noteq> Undef \<and> 0 \<le> i \<and> i < int (length l) \<longrightarrow>
      setprop h (List l) (Num i) x = List (l[nat i := x]))"
proof -
  have del: "setprop h (List l) (Num i) Undef
             = List (take (nat i) l @ drop (Suc (nat i)) l)"
    if "0 \<le> i" "i < int (length l)"
  proof -
    have "nat i < length l" using that by simp
    then have r: "take (length (shift_down (nat i) l) - 1) (shift_down (nat i) l)
                  = take (nat i) l @ drop (Suc (nat i)) l"
      by (rule shift_down_remove)
    show ?thesis
      using that r by (simp add: setprop_def js_of_nat_def Let_def)
  qed
  have app: "setprop h (List l) (Num i) x = List (l @ [x])"
    if "x \<noteq> Undef" "int (length l) \<le> i"
    using that by (auto simp: setprop_def js_of_nat_def arr_set_def Let_def)
  have pre: "setprop h (List l) (Num i) x = List (x # l)" if "x \<noteq> Undef" "i < 0"
    using that by (simp add: setprop_def js_of_nat_def Let_def)
  have ovr: "setprop h (List l) (Num i) x = List (l[nat i := x])"
    if "x \<noteq> Undef" "0 \<le> i" "i < int (length l)"
    using that by (auto simp: setprop_def js_of_nat_def arr_set_def Let_def)
  show ?thesis using del app pre ovr by blast
qed

theorem setprop_list_index_witness:
  "setprop example_host (List [Num 10, Num 20, Num 30]) (Num 1) Undef
     = List [Num 10, Num 30]
   \<and> setprop example_host (List [Num 10, Num 20, Num 30]) (Num 7) (Str ''x'')
       = List [Num 10, Num 20, Num 30, Str ''x'']
   \<and> setprop example_host (List [Num 10, Num 20, Num 30]) (Num (- 2)) (Str ''x'')
       = List [Str ''x'', Num 10, Num 20, Num 30]
   \<and> setprop example_host (List [Num 10, Num 20, Num 30]) (Num 1) (Str ''x'')
       = List [Num 10, Str ''x'', Num 30]"
  using setprop_list_index [of 1 "[Num 10, Num 20, Num 30]" example_host "Str ''x''"]
        setprop_list_index [of 7 "[Num 10, Num 20, Num 30]" example_host "Str ''x''"]
        setprop_list_index [of "- 2" "[Num 10, Num 20, Num 30]" example_host "Str ''x''"]
  by simp

text \<open>
  Claim C4, as the code has it. For every map \<open>m\<close>, every non-empty string key \<open>k\<close> and
  every value \<open>x\<close> that is not absent: reading \<open>k\<close> back after \<open>setprop m k x\<close> gives
  \<open>x\<close>, provided \<open>k\<close> is not \<^verbatim>\<open>__proto__\<close> or the map has \<open>k\<close> as a property of its own;
  and after \<open>setprop m k absent\<close>, \<open>haskey\<close> is false exactly when the map inherits no
  property under the name \<open>k\<close>.
\<close>

theorem setprop_getprop_round_trip_own:
  "k \<noteq> [] \<Longrightarrow> x \<noteq> Undef \<Longrightarrow>
     (k \<noteq> ''__proto__'' \<or> k \<in> fst ` set m \<longrightarrow>
        getprop h (setprop h (Map m) (Str k) x) (Str k) Undef = x)
     \<and> (haskey h (setprop h (Map m) (Str k) Undef) (Str k) \<longleftrightarrow> obj_inherited h k \<noteq> Undef)"
  by (auto simp: setprop_def getprop_def haskey_def map_of_obj_put map_of_obj_delete)

theorem setprop_getprop_round_trip_own_witness:
  "''b'' \<noteq> [] \<and> Num 2 \<noteq> Undef \<and> ''b'' \<noteq> ''__proto__''
   \<and> obj_inherited example_host ''b'' = Undef
   \<and> getprop example_host
        (setprop example_host (Map [(''a'', Num 1), (''b'', Num 5)]) (Str ''b'') (Num 2))
        (Str ''b'') Undef = Num 2
   \<and> \<not> haskey example_host
          (setprop example_host (Map [(''a'', Num 1), (''b'', Num 5)]) (Str ''b'') Undef)
          (Str ''b'')"
proof -
  have i: "obj_inherited example_host ''b'' = Undef"
    by (simp add: example_host_def inherited_from_def object_prototype_names_def)
  show ?thesis
    using i setprop_getprop_round_trip_own
            [of "''b''" "Num 2" "[(''a'', Num 1), (''b'', Num 5)]" example_host]
    by simp
qed

text \<open>
  The claim as the specification states it fails for a key under which a map inherits
  a property: after \<^verbatim>\<open>toString\<close> is removed the map still has the inherited function, and
  a number assigned to \<^verbatim>\<open>__proto__\<close> is not stored.
\<close>

theorem setprop_getprop_round_trip_counterexample:
  "haskey example_host
     (setprop example_host (Map [(''a'', Num 1)]) (Str ''toString'') Undef) (Str ''toString'')
   \<and> getprop example_host
        (setprop example_host (Map []) (Str ''__proto__'') (Num 5)) (Str ''__proto__'') Undef
       \<noteq> Num 5"
  by code_simp

text \<open>
  Claim C10. For every list \<open>l\<close> and every non-empty string key \<open>k\<close> whose numeric
  coercion is not a number, \<open>setprop l k x\<close> returns \<open>l\<close> unchanged, whatever \<open>x\<close> is,
  although \<open>iskey\<close> accepts \<open>k\<close>.
\<close>

theorem setprop_list_nonnumeric_key:
  "k \<noteq> [] \<Longrightarrow> isNaN (tonum h k) \<Longrightarrow>
     iskey (Str k) \<and> setprop h (List l) (Str k) x = List l"
  by (simp add: setprop_def Let_def)

theorem setprop_list_nonnumeric_key_witness:
  "''a'' \<noteq> [] \<and> isNaN (tonum example_host ''a'') \<and> iskey (Str ''a'')
   \<and> setprop example_host (List [Num 1, Num 2]) (Str ''a'') (Num 9) = List [Num 1, Num 2]"
proof -
  have n: "isNaN (tonum example_host ''a'')"
    by (simp add: example_host_def decimal_tonum_def is_digit_def)
  show ?thesis
    using n setprop_list_nonnumeric_key [of "''a''" example_host "[Num 1, Num 2]" "Num 9"]
    by simp
qed

section \<open>Properties of merge\<close>

text \<open>
  Claim C5. \<open>merge\<close> of the empty list is the absent value, and \<open>merge\<close> of a list of
  one element is that element, whatever it is.
\<close>

theorem merge_identity:
  "merge h (List []) = Undef \<and> merge h (List [x]) = x"
  by (simp add: merge_def merge_run_def)

text \<open>
  Claim C9. For every value \<open>v\<close> that is not a list (a scalar, a map, a function, the
  absent value), \<open>merge v\<close> is \<open>v\<close> itself.
\<close>

theorem merge_non_list:
  "\<not> islist v \<Longrightarrow> merge h v = v"
  by (cases v) (simp_all add: merge_def merge_run_def)

theorem merge_non_list_witness:
  "\<not> islist (Map [(''a'', Num 1)]) \<and> merge example_host (Map [(''a'', Num 1)]) = Map [(''a'', Num 1)]
   \<and> \<not> islist Undef \<and> merge example_host Undef = Undef
   \<and> \<not> islist (Num 7) \<and> merge example_host (Num 7) = Num 7"
  using merge_non_list [of "Map [(''a'', Num 1)]" example_host]
        merge_non_list [of Undef example_host]
        merge_non_list [of "Num 7" example_host]
  by simp


lemma merge_step_list:
  "length (fst (merge_step h oI st)) = length (fst st)"
  by (auto simp: merge_step_def Let_def split: option.splits)








section \<open>Properties of the path resolver\<close>

text \<open>
  Claim C7, as the code has it. For \<open>getpath\<close> with no state or a state without a
  handler:
  \<^item> the empty string and the single empty segment yield \<open>store[base]\<close> when the store is
    a node that has it, and the store itself otherwise;
  \<^item> a path that is neither a string nor a list, the absent path among them, yields
    the absent value;
  \<^item> when the store is neither absent nor null, a path of two or more segments whose
    first segment is the empty string is resolved from \<open>current\<close>: the leading segment
    is skipped and the others are followed from \<open>current\<close> one by one, up to the first
    that is missing.
\<close>

theorem getpath_without_handler:
  assumes "no_handler state"
  shows "(path = Str [] \<or> path = List [Str []] \<longrightarrow>
            getpath h path store current state
            = (if store \<noteq> Undef \<and> state_base state \<noteq> Undef \<and> isnode store
                  \<and> lookup_prop h store (state_base state) \<noteq> Undef
               then lookup_prop h store (state_base state) else store))
       \<and> (path_parts path = None \<longrightarrow> getpath h path store current state = Undef)
       \<and> (store \<noteq> Undef \<and> store \<noteq> Null
            \<and> path_parts path = Some (Str [] # Str q # map Str qs) \<longrightarrow>
            getpath h path store current state
            = descend h (getprop h current (Str q) Undef) (map Str qs))"
proof -
  have nh: "(case state of None \<Rightarrow> v | Some st \<Rightarrow>
               (case handler st of None \<Rightarrow> v | Some f \<Rightarrow> f v current path store)) = v" for v
    using assms by (auto simp: no_handler_def split: option.splits)
  have 1: "getpath h path store current state
           = (if store \<noteq> Undef \<and> state_base state \<noteq> Undef \<and> isnode store
                 \<and> lookup_prop h store (state_base state) \<noteq> Undef
              then lookup_prop h store (state_base state) else store)"
    if "path = Str [] \<or> path = List [Str []]"
    using that
    by (auto simp: getpath_def path_parts_def nh Let_def getprop_def state_base_def
             split: option.splits)
  have 2: "getpath h path store current state = Undef" if "path_parts path = None"
    using that by (simp add: getpath_def)
  have 3: "getpath h path store current state
           = descend h (getprop h current (Str q) Undef) (map Str qs)"
    if "store \<noteq> Undef" "store \<noteq> Null" "path_parts path = Some (Str [] # Str q # map Str qs)"
  proof -
    have "path \<noteq> Undef" "path \<noteq> Null"
      using that(3) by (auto simp: path_parts_def)
    then show ?thesis
      using that by (simp add: getpath_def nh Let_def)
  qed
  show ?thesis using 1 2 3 by blast
qed

theorem getpath_without_handler_witness:
  "no_handler None
   \<and> getpath example_host (Str []) (Map [(''a'', Num 1)]) Undef None = Map [(''a'', Num 1)]
   \<and> path_parts (Num 3) = None
   \<and> getpath example_host (Num 3) (Map [(''a'', Num 1)]) Undef None = Undef
   \<and> path_parts (Str ''.a.b'') = Some (Str [] # Str ''a'' # map Str [''b''])
   \<and> getpath example_host (Str ''.a.b'') (Map [(''a'', Num 7)])
        (Map [(''a'', Map [(''b'', Num 2)])]) None = Num 2"
proof -
  have n: "no_handler None" by (simp add: no_handler_def)
  have p: "path_parts (Str ''.a.b'') = Some (Str [] # Str ''a'' # map Str [''b''])"
    by (simp add: path_parts_def)
  have d: "descend example_host
             (getprop example_host (Map [(''a'', Map [(''b'', Num 2)])]) (Str ''a'') Undef)
             (map Str [''b'']) = Num 2"
    by code_simp
  have 1: "getpath example_host (Str []) (Map [(''a'', Num 1)]) Undef None
           = Map [(''a'', Num 1)]"
    using getpath_without_handler
            [OF n, where path = "Str []" and h = example_host
               and store = "Map [(''a'', Num 1)]" and current = Undef]
    by (simp add: state_base_def)
  have 2: "getpath example_host (Num 3) (Map [(''a'', Num 1)]) Undef None = Undef"
    using getpath_without_handler
            [OF n, where path = "Num 3" and h = example_host
               and store = "Map [(''a'', Num 1)]" and current = Undef]
    by (simp add: path_parts_def)
  have 3: "getpath example_host (Str ''.a.b'') (Map [(''a'', Num 7)])
             (Map [(''a'', Map [(''b'', Num 2)])]) None = Num 2"
    using getpath_without_handler
            [OF n, where path = "Str ''.a.b''" and h = example_host
               and store = "Map [(''a'', Num 7)]" and q = "''a''" and qs = "[''b'']"
               and current = "Map [(''a'', Map [(''b'', Num 2)])]"]
          p d
    by simp
  show ?thesis using n p 1 2 3 by (simp add: path_parts_def)
qed

text \<open>
  The claim as the specification states it fails twice: an absent path yields the
  absent value, not the store; and a local path is not resolved from \<open>current\<close> when
  the store is absent, although \<open>current\<close> holds the value.
\<close>

theorem getpath_without_handler_counterexample:
  "getpath example_host Undef (Map [(''a'', Num 1)]) Undef None = Undef
   \<and> getpath example_host (Str ''.a'') Undef (Map [(''a'', Num 1)]) None = Undef
   \<and> getprop example_host (Map [(''a'', Num 1)]) (Str ''a'') Undef = Num 1"
  by code_simp

section \<open>Properties of the validation facade\<close>




section \<open>The key order of inject and the merge directive at given inputs\<close>

text \<open>
  Claim C1 says that \<open>inject\<close> takes the keys of a map that contain no dollar sign in
  sorted order. The code sorts only the keys that contain one; the others keep the
  order in which the map enumerates them, which for names that are not indexes is the
  order of their insertion. Two maps with the same entries are iterated differently.
\<close>

theorem inject_origkeys_insertion_order:
  "inject_origkeys
     (Map [(''b'', Num 1), (''`$B`'', Num 3), (''a'', Num 2), (''`$A`'', Num 4)])
   = [Str ''b'', Str ''a'', Str ''`$A`'', Str ''`$B`'']
   \<and> inject_origkeys
       (Map [(''a'', Num 2), (''`$A`'', Num 4), (''b'', Num 1), (''`$B`'', Num 3)])
     = [Str ''a'', Str ''b'', Str ''`$A`'', Str ''`$B`'']"
  by code_simp

text \<open>
  Claim C2 says that the merge directive, given the empty string, merges the top-level
  data of the store. The code reads \<^verbatim>\<open>current.$TOP\<close>. Below the top level of the
  specification \<open>current\<close> is a part of the data and has no such member: in the
  transformation of the data \<^verbatim>\<open>{x: 1}\<close> by \<^verbatim>\<open>{p: {a: 1, `$MERGE`: ''}}\<close> the directive
  runs with the parent \<^verbatim>\<open>{a: 1, `$MERGE`: ''}\<close> and \<open>current\<close> the data itself. The code
  leaves the parent as \<^verbatim>\<open>{a: 1}\<close>; merging the list that the claim names, with the data
  in it, leaves it as \<^verbatim>\<open>{a: 1, x: 1}\<close>.
\<close>

theorem transform_MERGE_nested_empty_string:
  "outcome (transform_MERGE example_host
     \<lparr>mode = KeyPost, key = ''`$MERGE`'',
      parent = Map [(''a'', Num 1), (''`$MERGE`'', Str [])],
      base = Str ''$TOP'', handler = None\<rparr>
     Undef (Map [(''x'', Num 1)]))
   = Inr (Str ''`$MERGE`'', Map [(''a'', Num 1)])
   \<and> snd (merge_run example_host
            (List [Map [(''a'', Num 1)], Map [(''x'', Num 1)], clone (Map [(''a'', Num 1)])]))
     = List [Map [(''a'', Num 1), (''x'', Num 1)], Map [(''x'', Num 1)], Map [(''a'', Num 1)]]"
  by code_simp

text \<open>
  A second way in which the parent's own keys lose: a source that is not a map takes
  the place of the accumulator, and the copy of the parent is then merged into that
  source's successor, not into the parent. With the sources \<^verbatim>\<open>[{a: 2}, 5]\<close> the parent
  \<^verbatim>\<open>{a: 1}\<close> ends as \<^verbatim>\<open>{a: 2}\<close>.
\<close>

lemma transform_MERGE_scalar_source:
  "outcome (transform_MERGE example_host
     \<lparr>mode = KeyPost, key = ''`$MERGE`'',
      parent = Map [(''a'', Num 1), (''`$MERGE`'', List [Map [(''a'', Num 2)], Num 5])],
      base = Str ''$TOP'', handler = None\<rparr>
     Undef (Map [(''x'', Num 1)]))
   = Inr (Str ''`$MERGE`'', Map [(''a'', Num 2)])"
  by code_simp

text \<open>At the top level \<open>current\<close> is the store, and the data is merged under the parent's keys.\<close>

lemma transform_MERGE_top_level:
  "outcome (transform_MERGE example_host
     \<lparr>mode = KeyPost, key = ''`$MERGE`'',
      parent = Map [(''a'', Num 1), (''`$MERGE`'', Str [])],
      base = Str ''$TOP'', handler = None\<rparr>
     Undef (Map [(''$TOP'', Map [(''x'', Num 1), (''a'', Num 7)])]))
   = Inr (Str ''`$MERGE`'', Map [(''a'', Num 1), (''x'', Num 1)])"
  by code_simp


end
